theory Spec2Isabelle
  imports Main
begin

section \<open>Data model of \<open>hammer/package.go\<close>\<close>

text \<open>
  Errors are values.  \<open>ErrInvalidScriptName\<close> is the package-level variable of
  that name (line 18); \<open>ErrNonZeroExit\<close> is the error built on line 174;
  \<open>NilProcessState\<close> stands for the run-time panic raised when
  \<open>fpm.ProcessState\<close> is nil and one of its methods is called (lines 173-181);
  \<open>ExtError\<close> is any error handed back by the operating system, the template
  library, a resource or a subprocess, identified by its message.
\<close>

datatype error =
    ErrInvalidScriptName
  | ErrNonZeroExit
  | NilProcessState
  | ExtError string

text \<open>\<open>type Target struct\<close>, lines 21-24.\<close>

record target =
  Src :: string
  Dest :: string

text \<open>
  Modelled from the spec: the \<open>Resource\<close> interface is declared outside the
  given sources.  The spec gives it a stable \<open>name()\<close>, the destination file
  name inside the build workspace, and a \<open>download(package)\<close> operation; the
  record keeps the name and a descriptor of where the bytes come from, and
  the outcome of a download is supplied by the environment below.
\<close>

record resource =
  ResName :: string
  ResSource :: string

text \<open>
  \<open>type Package struct\<close>, lines 26-46, without the logger.  \<open>Scripts\<close> is a
  Go map from hook name to script body; it is kept as the list of its
  entries in the order in which the single \<open>range\<close> loop over it (line 276)
  visits them.  Go leaves that order unspecified, so every order is a
  possible run.
\<close>

record package =
  Name :: string
  Version :: string
  Iteration :: string
  Epoch :: string
  License :: string
  Vendor :: string
  URL :: string
  Description :: string
  Depends :: "string list"
  Resources :: "resource list"
  Targets :: "target list"
  Scripts :: "(string \<times> string) list"
  BuildRoot :: string
  OutputRoot :: string
  Root :: string
  ScriptRoot :: string

subsection \<open>The world outside the program\<close>

text \<open>
  A directory entry as \<open>ioutil.ReadDir\<close> reports it, without following
  symbolic links: its name, the type bits of its mode, the permission bits
  and the bytes given to \<open>ioutil.WriteFile\<close>.  The code calls two methods of
  \<open>os.FileInfo\<close>, \<open>Name()\<close> and \<open>IsDir()\<close>; \<open>IsDir()\<close> is \<open>Mode().IsDir()\<close>, and
  \<open>Mode().IsRegular()\<close> holds when no type bit is set.
\<close>

datatype file_type = Regular | Directory | Symlink | NamedPipe | Socket | Device

record file_info =
  FileName :: string
  FileType :: file_type
  Perm :: nat
  Data :: string

definition IsDir :: "file_info \<Rightarrow> bool" where
  "IsDir f \<longleftrightarrow> FileType f = Directory"

definition IsRegular :: "file_info \<Rightarrow> bool" where
  "IsRegular f \<longleftrightarrow> FileType f = Regular"

text \<open>
  The file system maps the path of a directory to its entries.  Besides the
  file system the world keeps the trace of the external actions performed so
  far: resource downloads, runs of the build script and runs of the
  packaging backend.  Log output is not part of the model.
\<close>

type_synonym fs = "string \<Rightarrow> file_info list option"

datatype event =
    EvDownload resource
  | EvBuildSources string
  | EvFpm "string list"

record world =
  dirs :: fs
  events :: "event list"

text \<open>
  The calls into the operating system, as keys for the failures the
  environment may inject (permissions, a full disk, ...).
\<close>

datatype syscall =
    SysReadDir string
  | SysTempDir string
  | SysWriteFile string
  | SysRemove string
  | SysRemoveAll string

text \<open>
  Everything the code calls but does not define is a parameter:
  \<^item> \<open>fault\<close>: the error, if any, with which a system call fails;
  \<^item> \<open>temp_name\<close>: the fresh path \<open>ioutil.TempDir\<close> picks for a prefix;
  \<^item> \<open>filepath_Match\<close>: Go's \<open>filepath.Match\<close>, returning \<open>(matched, err)\<close>;
  \<^item> \<open>template_Parse\<close>, \<open>template_Execute\<close>: Go's \<open>text/template\<close>; parsing a
    text under a template name may fail, executing it against a package
    yields the bytes written to the buffer and an optional error.  The
    library is taken as a function of the template text and of the package's
    fields; a template whose actions call methods of the package is outside
    this model;
  \<^item> \<open>download\<close>: \<open>Resource.Download\<close>, returning \<open>(body, err)\<close>;
  \<^item> \<open>build_sources\<close>: \<open>Scripts.BuildSources\<close>, which runs the build script in
    a working directory; it returns \<open>(out, err)\<close> and may change the file
    system at will;
  \<^item> \<open>run_fpm\<close>: \<open>exec.Command("fpm", args...).CombinedOutput()\<close>, returning
    \<open>(out, err)\<close>, the value of \<open>ProcessState.Success()\<close> (\<open>None\<close> when the
    process never started and \<open>ProcessState\<close> is nil) and the file system it
    leaves behind.
\<close>

record env =
  fault :: "syscall \<Rightarrow> error option"
  temp_name :: "string \<Rightarrow> string"
  filepath_Match :: "string \<Rightarrow> string \<Rightarrow> bool \<times> error option"
  template_Parse :: "string \<Rightarrow> string \<Rightarrow> error option"
  template_Execute :: "string \<Rightarrow> package \<Rightarrow> string \<times> error option"
  download :: "resource \<Rightarrow> package \<Rightarrow> string \<times> error option"
  build_sources :: "(string \<times> string) list \<Rightarrow> string \<Rightarrow> fs \<Rightarrow> (string \<times> error option) \<times> fs"
  run_fpm :: "string list \<Rightarrow> fs \<Rightarrow> (string \<times> error option \<times> bool option) \<times> fs"

subsection \<open>Library calls\<close>

text \<open>
  \<open>path.Join\<close> of two elements: empty elements are ignored, the others are
  joined by a slash.  The elements are taken to be clean already.
\<close>

definition path_Join :: "string \<Rightarrow> string \<Rightarrow> string" where
  "path_Join a b = (if a = [] then b else if b = [] then a else a @ ''/'' @ b)"

text \<open>\<open>ioutil.ReadDir\<close>: the entries of a directory, or an error.\<close>

definition ioutil_ReadDir :: "env \<Rightarrow> string \<Rightarrow> world \<Rightarrow> error + file_info list" where
  "ioutil_ReadDir E d w =
     (case fault E (SysReadDir d) of
        Some e \<Rightarrow> Inl e
      | None \<Rightarrow>
          (case dirs w d of
             None \<Rightarrow> Inl (ExtError ''no such file or directory'')
           | Some es \<Rightarrow> Inr es))"

text \<open>
  \<open>ioutil.TempDir("", prefix)\<close>: creates an empty directory under a fresh
  name and returns its path, or returns the empty path and an error.  The
  library's retry on a name that exists is not modelled: the name comes from
  the environment, and a collision is the library's error.
\<close>

definition ioutil_TempDir :: "env \<Rightarrow> string \<Rightarrow> world \<Rightarrow> (string \<times> error option) \<times> world" where
  "ioutil_TempDir E prefix w =
     (case fault E (SysTempDir prefix) of
        Some e \<Rightarrow> (([], Some e), w)
      | None \<Rightarrow>
          (let d = temp_name E prefix in
           case dirs w d of
             Some es \<Rightarrow> (([], Some (ExtError ''file exists'')), w)
           | None \<Rightarrow> ((d, None), w\<lparr>dirs := (dirs w)(d \<mapsto> [])\<rparr>)))"

text \<open>
  \<open>ioutil.WriteFile(path.Join(dir, name), data, perm)\<close>: creates the file
  \<open>name\<close> in the directory \<open>dir\<close> with the permissions \<open>perm\<close>, or replaces
  the bytes of the file when it exists.  It fails when the directory does
  not exist or when the name is that of a directory.
\<close>

fun put_file :: "string \<Rightarrow> nat \<Rightarrow> string \<Rightarrow> file_info list \<Rightarrow> file_info list" where
  "put_file name perm body [] =
     [\<lparr>FileName = name, FileType = Regular, Perm = perm, Data = body\<rparr>]"
| "put_file name perm body (g # gs) =
     (if FileName g = name then g\<lparr>Data := body\<rparr> # gs else g # put_file name perm body gs)"

definition ioutil_WriteFile ::
  "env \<Rightarrow> string \<Rightarrow> string \<Rightarrow> string \<Rightarrow> nat \<Rightarrow> world \<Rightarrow> error option \<times> world" where
  "ioutil_WriteFile E dir name body perm w =
     (case fault E (SysWriteFile (path_Join dir name)) of
        Some e \<Rightarrow> (Some e, w)
      | None \<Rightarrow>
          (case dirs w dir of
             None \<Rightarrow> (Some (ExtError ''no such file or directory''), w)
           | Some es \<Rightarrow>
               if \<exists>g \<in> set es. FileName g = name \<and> IsDir g
               then (Some (ExtError ''is a directory''), w)
               else (None, w\<lparr>dirs := (dirs w)(dir \<mapsto> put_file name perm body es)\<rparr>)))"

text \<open>
  \<open>os.Remove\<close> on a directory removes it only when it is empty;
  \<open>os.RemoveAll\<close> removes it with everything in it and reports no error
  when the path does not exist.
\<close>

definition os_Remove :: "env \<Rightarrow> string \<Rightarrow> world \<Rightarrow> error option \<times> world" where
  "os_Remove E d w =
     (case fault E (SysRemove d) of
        Some e \<Rightarrow> (Some e, w)
      | None \<Rightarrow>
          if d = [] then (Some (ExtError ''no such file or directory''), w)
          else
            (case dirs w d of
               None \<Rightarrow> (Some (ExtError ''no such file or directory''), w)
             | Some [] \<Rightarrow> (None, w\<lparr>dirs := (dirs w)(d := None)\<rparr>)
             | Some (g # gs) \<Rightarrow> (Some (ExtError ''directory not empty''), w)))"

definition os_RemoveAll :: "env \<Rightarrow> string \<Rightarrow> world \<Rightarrow> error option \<times> world" where
  "os_RemoveAll E d w =
     (case fault E (SysRemoveAll d) of
        Some e \<Rightarrow> (Some e, w)
      | None \<Rightarrow> (None, w\<lparr>dirs := (dirs w)(d := None)\<rparr>))"

text \<open>
  \<open>Resource.Download(p)\<close>, \<open>Scripts.BuildSources(logger, dir)\<close> and the run of
  the backend, each leaving its event in the trace.
\<close>

definition Download :: "env \<Rightarrow> resource \<Rightarrow> package \<Rightarrow> world \<Rightarrow> (string \<times> error option) \<times> world" where
  "Download E s p w = (download E s p, w\<lparr>events := events w @ [EvDownload s]\<rparr>)"

definition BuildSources :: "env \<Rightarrow> (string \<times> string) list \<Rightarrow> string \<Rightarrow> world \<Rightarrow> (string \<times> error option) \<times> world" where
  "BuildSources E scripts dir w =
     (case build_sources E scripts dir (dirs w) of
        (r, fs') \<Rightarrow> (r, w\<lparr>dirs := fs', events := events w @ [EvBuildSources dir]\<rparr>))"

definition exec_fpm :: "env \<Rightarrow> string list \<Rightarrow> world \<Rightarrow> (string \<times> error option \<times> bool option) \<times> world" where
  "exec_fpm E args w =
     (case run_fpm E args (dirs w) of
        (r, fs') \<Rightarrow> (r, w\<lparr>dirs := fs', events := events w @ [EvFpm args]\<rparr>))"

section \<open>The operations of \<open>Package\<close>\<close>

text \<open>\<open>Cleanup\<close>, lines 55-69.\<close>

definition Cleanup :: "env \<Rightarrow> package \<Rightarrow> world \<Rightarrow> error option \<times> world" where
  "Cleanup E p w =
     (case os_RemoveAll E (BuildRoot p) w of
        (Some e, w1) \<Rightarrow> (Some e, w1)
      | (None, w1) \<Rightarrow>
          (case os_RemoveAll E (ScriptRoot p) w1 of
             (Some e, w2) \<Rightarrow> (Some e, w2)
           | (None, w2) \<Rightarrow> (None, w2)))"

text \<open>\<open>Render\<close>, lines 144-153: the buffer and the error.\<close>

definition Render :: "env \<Rightarrow> package \<Rightarrow> string \<Rightarrow> string \<times> error option" where
  "Render E p inp =
     (case template_Parse E (Name p @ ''-'' @ inp) inp of
        Some e \<Rightarrow> ([], Some e)
      | None \<Rightarrow> template_Execute E inp p)"

text \<open>
  One metadata argument of \<open>fpmArgs\<close>: render the field; on an error return
  the arguments collected so far with it, otherwise append the flag and the
  rendered text.  The optional fields are guarded by \<open>field != ""\<close>.
\<close>

definition render_arg ::
  "env \<Rightarrow> package \<Rightarrow> string \<Rightarrow> string \<Rightarrow> string list \<Rightarrow> (string list \<times> error) + string list" where
  "render_arg E p flag field args =
     (case Render E p field of
        (buf, Some e) \<Rightarrow> Inl (args, e)
      | (buf, None) \<Rightarrow> Inr (args @ [flag, buf]))"

definition render_opt ::
  "env \<Rightarrow> package \<Rightarrow> string \<Rightarrow> string \<Rightarrow> string list \<Rightarrow> (string list \<times> error) + string list" where
  "render_opt E p flag field args =
     (if field \<noteq> [] then render_arg E p flag field args else Inr args)"

text \<open>The loop over \<open>p.Depends\<close>, lines 264-266.\<close>

fun add_depends :: "string list \<Rightarrow> string list \<Rightarrow> string list" where
  "add_depends args [] = args"
| "add_depends args (depend # ds) = add_depends (args @ [''--depend'', depend]) ds"

text \<open>\<open>fpmArgs\<close>, lines 188-266: name, version, iteration, the five optional
  fields and the dependencies.\<close>

definition fpm_fields :: "env \<Rightarrow> package \<Rightarrow> (string list \<times> error) + string list" where
  "fpm_fields E p =
     (case render_arg E p ''--name'' (Name p) [] of Inl x \<Rightarrow> Inl x | Inr a1 \<Rightarrow>
     (case render_arg E p ''--version'' (Version p) a1 of Inl x \<Rightarrow> Inl x | Inr a2 \<Rightarrow>
     (case render_arg E p ''--iteration'' (Iteration p) a2 of Inl x \<Rightarrow> Inl x | Inr a3 \<Rightarrow>
     (case render_opt E p ''--epoch'' (Epoch p) a3 of Inl x \<Rightarrow> Inl x | Inr a4 \<Rightarrow>
     (case render_opt E p ''--license'' (License p) a4 of Inl x \<Rightarrow> Inl x | Inr a5 \<Rightarrow>
     (case render_opt E p ''--vendor'' (Vendor p) a5 of Inl x \<Rightarrow> Inl x | Inr a6 \<Rightarrow>
     (case render_opt E p ''--description'' (Description p) a6 of Inl x \<Rightarrow> Inl x | Inr a7 \<Rightarrow>
     (case render_opt E p ''--url'' (URL p) a7 of Inl x \<Rightarrow> Inl x | Inr a8 \<Rightarrow>
        Inr (add_depends a8 (Depends p))))))))))"

text \<open>The test of line 283 on a hook name other than \<open>build\<close>.\<close>

definition valid_hook :: "string \<Rightarrow> bool" where
  "valid_hook name \<longleftrightarrow>
     \<not> (name \<noteq> ''before-install'' \<and> name \<noteq> ''after-install'' \<and>
        name \<noteq> ''before-remove'' \<and> name \<noteq> ''after-remove'' \<and>
        name \<noteq> ''before-upgrade'' \<and> name \<noteq> ''after-upgrade'')"

text \<open>The loop over \<open>p.Scripts\<close>, lines 276-304; 0755 is 493.\<close>

fun write_scripts ::
  "env \<Rightarrow> package \<Rightarrow> string \<Rightarrow> (string \<times> string) list \<Rightarrow> string list \<Rightarrow> world
     \<Rightarrow> (string list \<times> error option) \<times> world" where
  "write_scripts E p scriptDir [] args w = ((args, None), w)"
| "write_scripts E p scriptDir ((name, val) # rest) args w =
     (if name = ''build'' then write_scripts E p scriptDir rest args w
      else if \<not> valid_hook name then ((args, Some ErrInvalidScriptName), w)
      else
        (case Render E p val of
           (content, Some e) \<Rightarrow> ((args, Some e), w)
         | (content, None) \<Rightarrow>
             (case ioutil_WriteFile E scriptDir name content 493 w of
                (Some e, w1) \<Rightarrow> ((args, Some e), w1)
              | (None, w1) \<Rightarrow>
                  write_scripts E p scriptDir rest
                    (args @ [''--'' @ name, path_Join scriptDir name]) w1)))"

text \<open>The loop over \<open>p.Targets\<close>, lines 306-320.\<close>

fun render_targets :: "env \<Rightarrow> package \<Rightarrow> target list \<Rightarrow> string list \<Rightarrow> string list \<times> error option" where
  "render_targets E p [] args = (args, None)"
| "render_targets E p (t # ts) args =
     (case Render E p (Src t) of
        (src, Some e) \<Rightarrow> (args, Some e)
      | (src, None) \<Rightarrow>
          (case Render E p (Dest t) of
             (dest, Some e) \<Rightarrow> (args, Some e)
           | (dest, None) \<Rightarrow> render_targets E p ts (args @ [src @ ''='' @ dest])))"

text \<open>
  \<open>fpmArgs\<close>, lines 186-323.  It returns the arguments and the error, the
  package (whose \<open>ScriptRoot\<close> it sets on line 274) and the world.
\<close>

definition fpmArgs :: "env \<Rightarrow> package \<Rightarrow> world \<Rightarrow> (string list \<times> error option) \<times> package \<times> world" where
  "fpmArgs E p w =
     (case fpm_fields E p of
        Inl (args, e) \<Rightarrow> ((args, Some e), p, w)
      | Inr args \<Rightarrow>
          (case ioutil_TempDir E (''hammer-scripts-'' @ Name p) w of
             ((scriptDir, Some e), w1) \<Rightarrow> ((args, Some e), p, w1)
           | ((scriptDir, None), w1) \<Rightarrow>
               (let p1 = p\<lparr>ScriptRoot := scriptDir\<rparr> in
                case write_scripts E p1 scriptDir (Scripts p1) args w1 of
                  ((args2, Some e), w2) \<Rightarrow> ((args2, Some e), p1, w2)
                | ((args2, None), w2) \<Rightarrow> (render_targets E p1 (Targets p1) args2, p1, w2))))"

text \<open>
  \<open>Package\<close>, lines 155-184.  When the process never started,
  \<open>fpm.ProcessState\<close> is nil and the call of one of its methods (line 173 or
  178) panics; the panic unwinds through the caller like an error return
  and is the error \<open>NilProcessState\<close> here.
\<close>

definition Package :: "env \<Rightarrow> package \<Rightarrow> world \<Rightarrow> (string \<times> error option) \<times> package \<times> world" where
  "Package E p w =
     (case fpmArgs E p w of
        ((args, Some e), p1, w1) \<Rightarrow> (([], Some e), p1, w1)
      | ((args, None), p1, w1) \<Rightarrow>
          (case exec_fpm E ([''-s'', ''dir'', ''-t'', ''rpm'', ''-p'', OutputRoot p1] @ args) w1 of
             ((out, err, None), w2) \<Rightarrow> (([], Some NilProcessState), p1, w2)
           | ((out, err, Some success), w2) \<Rightarrow>
               ((out, if err = None \<and> \<not> success then Some ErrNonZeroExit else err), p1, w2)))"

text \<open>The glob of line 73.\<close>

definition nameGlob :: "package \<Rightarrow> string" where
  "nameGlob p = Name p @ ''-'' @ Version p @ ''-'' @ Iteration p @ ''.*''"

text \<open>
  The loop of lines 79-97 over the listing of the output directory: true
  when it reaches \<open>return nil\<close> on line 95.  An error of \<open>filepath.Match\<close> is
  logged only.
\<close>

fun conflict :: "env \<Rightarrow> string \<Rightarrow> file_info list \<Rightarrow> bool" where
  "conflict E glob [] = False"
| "conflict E glob (file # files) =
     (if IsDir file then conflict E glob files
      else if fst (filepath_Match E glob (FileName file)) then True
      else conflict E glob files)"

text \<open>The loop of lines 109-119 over \<open>p.Resources\<close>; 0777 is 511.  The result
  of \<open>ioutil.WriteFile\<close> is dropped.\<close>

fun download_resources ::
  "env \<Rightarrow> package \<Rightarrow> string \<Rightarrow> resource list \<Rightarrow> world \<Rightarrow> error option \<times> world" where
  "download_resources E p buildDir [] w = (None, w)"
| "download_resources E p buildDir (s # ss) w =
     (case Download E s p w of
        ((body, Some e), w1) \<Rightarrow> (Some e, w1)
      | ((body, None), w1) \<Rightarrow>
          download_resources E p buildDir ss
            (snd (ioutil_WriteFile E buildDir (ResName s) body 511 w1)))"

text \<open>Lines 121-141 of \<open>Build\<close>: the build script, the packaging, the cleanup.\<close>

definition build_and_package ::
  "env \<Rightarrow> package \<Rightarrow> string \<Rightarrow> world \<Rightarrow> error option \<times> package \<times> world" where
  "build_and_package E p buildDir w =
     (case BuildSources E (Scripts p) buildDir w of
        ((out, Some e), w2) \<Rightarrow> (Some e, p, w2)
      | ((out, None), w2) \<Rightarrow>
          (case Package E p w2 of
             ((out2, Some e), p3, w3) \<Rightarrow> (Some e, p3, w3)
           | ((out2, None), p3, w3) \<Rightarrow>
               (case Cleanup E p3 w3 of (r, w4) \<Rightarrow> (r, p3, w4))))"

text \<open>Lines 108-141 of \<open>Build\<close>, once the build directory exists.\<close>

definition build_steps :: "env \<Rightarrow> package \<Rightarrow> string \<Rightarrow> world \<Rightarrow> error option \<times> package \<times> world" where
  "build_steps E p buildDir w =
     (case download_resources E p buildDir (Resources p) w of
        (Some e, w1) \<Rightarrow> (Some e, p, w1)
      | (None, w1) \<Rightarrow> build_and_package E p buildDir w1)"

text \<open>
  Lines 99-142 of \<open>Build\<close>.  \<open>defer os.Remove(buildDir)\<close> is registered on line
  101, before the error of \<open>ioutil.TempDir\<close> is looked at, so it runs on every
  return from here on, and its own result is dropped.
\<close>

definition build_in_workspace :: "env \<Rightarrow> package \<Rightarrow> world \<Rightarrow> error option \<times> package \<times> world" where
  "build_in_workspace E p w =
     (case ioutil_TempDir E (''hammer-'' @ Name p) w of
        ((buildDir, err), w1) \<Rightarrow>
          (case (case err of
                   Some e \<Rightarrow> (Some e, p, w1)
                 | None \<Rightarrow> build_steps E (p\<lparr>BuildRoot := buildDir\<rparr>) buildDir w1) of
             (r, p2, w2) \<Rightarrow> (r, p2, snd (os_Remove E buildDir w2))))"

text \<open>\<open>Build\<close>, lines 71-142: the returned error, the package and the world.\<close>

definition Build :: "env \<Rightarrow> package \<Rightarrow> world \<Rightarrow> error option \<times> package \<times> world" where
  "Build E p w =
     (case ioutil_ReadDir E (OutputRoot p) w of
        Inl e \<Rightarrow> (Some e, p, w)
      | Inr files \<Rightarrow>
          if conflict E (nameGlob p) files then (None, p, w)
          else build_in_workspace E p w)"

section \<open>The argument vector as the specification describes it\<close>

text \<open>
  The specification describes the argument vector by its parts.  These
  definitions follow its words and are compared with \<open>fpmArgs\<close> below: an
  optional field contributes its flag and its rendered value when the
  manifest field is not empty and nothing otherwise; name, version and
  iteration always appear; every dependency follows \<open>--depend\<close> as it is
  written; every hook but \<open>build\<close> contributes \<open>--<hook> <path>\<close>; every
  target contributes \<open><src>=<dest>\<close>.
\<close>

definition optional_flag :: "env \<Rightarrow> package \<Rightarrow> string \<Rightarrow> string \<Rightarrow> string list" where
  "optional_flag E p flag field = (if field = [] then [] else [flag, fst (Render E p field)])"

definition metadata_flags :: "env \<Rightarrow> package \<Rightarrow> string list" where
  "metadata_flags E p =
     [''--name'', fst (Render E p (Name p)),
      ''--version'', fst (Render E p (Version p)),
      ''--iteration'', fst (Render E p (Iteration p))] @
     optional_flag E p ''--epoch'' (Epoch p) @
     optional_flag E p ''--license'' (License p) @
     optional_flag E p ''--vendor'' (Vendor p) @
     optional_flag E p ''--description'' (Description p) @
     optional_flag E p ''--url'' (URL p)"

definition depend_flags :: "string list \<Rightarrow> string list" where
  "depend_flags ds = concat (map (\<lambda>depend. [''--depend'', depend]) ds)"

definition hook_flags :: "string \<Rightarrow> (string \<times> string) list \<Rightarrow> string list" where
  "hook_flags scriptDir scripts =
     concat (map (\<lambda>(name, val). [''--'' @ name, path_Join scriptDir name])
       (filter (\<lambda>(name, val). name \<noteq> ''build'') scripts))"

definition target_args :: "env \<Rightarrow> package \<Rightarrow> target list \<Rightarrow> string list" where
  "target_args E p ts =
     map (\<lambda>t. fst (Render E p (Src t)) @ ''='' @ fst (Render E p (Dest t))) ts"

text \<open>
  The entries of the script set that the loop of lines 276-304 visits before
  it meets a name that fails the test of line 283.
\<close>

definition hooks_before_invalid :: "(string \<times> string) list \<Rightarrow> (string \<times> string) list" where
  "hooks_before_invalid scripts =
     takeWhile (\<lambda>(name, val). name = ''build'' \<or> valid_hook name) scripts"

section \<open>An example environment\<close>

text \<open>
  A concrete environment for the examples.  No system call fails; temporary
  directories are \<open>/tmp/<prefix>042\<close>; \<open>star_Match\<close> agrees with
  \<open>filepath.Match\<close> on patterns whose only metacharacter is a final star; the
  template library rejects the unclosed action \<open>{{\<close>, renders \<open>{{.Version}}\<close>
  to the version of the package and any other text used here to itself; a
  resource without a source fails to download; the build script and the
  backend succeed and leave the file system as it is.
\<close>

definition star_Match :: "string \<Rightarrow> string \<Rightarrow> bool \<times> error option" where
  "star_Match pat s =
     (if pat \<noteq> [] \<and> last pat = CHR ''*''
      then (take (length pat - 1) s = butlast pat \<and>
            CHR ''/'' \<notin> set (drop (length pat - 1) s), None)
      else (pat = s, None))"

definition example_env :: env where
  "example_env =
     \<lparr>fault = (\<lambda>c. None),
      temp_name = (\<lambda>prefix. ''/tmp/'' @ prefix @ ''042''),
      filepath_Match = star_Match,
      template_Parse =
        (\<lambda>name t. if t = ''{{'' then Some (ExtError ''unclosed action'') else None),
      template_Execute =
        (\<lambda>t p. if t = ''{{.Version}}'' then (Version p, None) else (t, None)),
      download =
        (\<lambda>s p. if ResSource s = [] then ([], Some (ExtError ''no source''))
               else (ResSource s, None)),
      build_sources = (\<lambda>scripts dir fs. ((''done'', None), fs)),
      run_fpm = (\<lambda>args fs. ((''created package'', None, Some True), fs))\<rparr>"

text \<open>The same environment with one system call failing, or with a build
  script that exits with a non-zero status.\<close>

definition failing :: "syscall \<Rightarrow> error \<Rightarrow> env \<Rightarrow> env" where
  "failing c e E = E\<lparr>fault := (fault E)(c := Some e)\<rparr>"

definition failing_build :: "env \<Rightarrow> env" where
  "failing_build E =
     E\<lparr>build_sources :=
         (\<lambda>scripts dir fs. ((''boom'', Some (ExtError ''exit status 1'')), fs))\<rparr>"

text \<open>
  The manifest of the specification's scenarios, and variations of it: with
  a hook of an unknown name, with an unclosed template as version, with
  three resources of which the second cannot be downloaded, with a single
  resource, with two resources, and with metadata, dependencies, a hook and
  a target.
\<close>

definition foo :: package where
  "foo = \<lparr>Name = ''foo'', Version = ''1.0'', Iteration = ''1'', Epoch = [], License = [],
          Vendor = [], URL = [], Description = [], Depends = [], Resources = [], Targets = [],
          Scripts = [(''build'', ''echo done'')], BuildRoot = [], OutputRoot = ''out'',
          Root = [], ScriptRoot = []\<rparr>"

definition foo_bogus :: package where
  "foo_bogus = foo\<lparr>Scripts := [(''build'', ''echo done''), (''bogus-hook'', ''echo x'')]\<rparr>"

definition foo_unclosed :: package where
  "foo_unclosed = foo_bogus\<lparr>Version := ''{{''\<rparr>"

definition foo_sources :: package where
  "foo_sources = foo\<lparr>Resources :=
     [\<lparr>ResName = ''a.tar'', ResSource = ''aaa''\<rparr>,
      \<lparr>ResName = ''b.tar'', ResSource = []\<rparr>,
      \<lparr>ResName = ''c.tar'', ResSource = ''ccc''\<rparr>]\<rparr>"

definition foo_staged :: package where
  "foo_staged = foo\<lparr>Resources := [\<lparr>ResName = ''a.tar'', ResSource = ''aaa''\<rparr>]\<rparr>"

definition foo_pair :: package where
  "foo_pair = foo\<lparr>Resources :=
     [\<lparr>ResName = ''a.tar'', ResSource = ''aaa''\<rparr>,
      \<lparr>ResName = ''c.tar'', ResSource = ''ccc''\<rparr>]\<rparr>"

definition foo_full :: package where
  "foo_full = foo\<lparr>Epoch := ''2'', License := ''{{.Version}}'', URL := ''http://foo.example'',
     Depends := [''bar >= {{.Version}}'', ''{{.Version}}''],
     Scripts := [(''after-install'', ''ldconfig''), (''build'', ''make'')],
     Targets := [\<lparr>Src = ''bin/foo'', Dest = ''/usr/bin/foo''\<rparr>]\<rparr>"

text \<open>
  Worlds: an output directory \<open>out\<close> with given entries, or none at all.  The
  entries: the artifact of \<open>foo\<close>, a directory whose name matches the glob of
  \<open>foo\<close>, and a symbolic link of the artifact's name.
\<close>

definition out_dir :: "file_info list \<Rightarrow> world" where
  "out_dir entries = \<lparr>dirs = [''out'' \<mapsto> entries], events = []\<rparr>"

definition no_out_dir :: world where
  "no_out_dir = \<lparr>dirs = Map.empty, events = []\<rparr>"

definition foo_rpm :: file_info where
  "foo_rpm = \<lparr>FileName = ''foo-1.0-1.rpm'', FileType = Regular, Perm = 420, Data = ''rpm''\<rparr>"

definition foo_dir :: file_info where
  "foo_dir = \<lparr>FileName = ''foo-1.0-1.d'', FileType = Directory, Perm = 493, Data = []\<rparr>"

definition foo_link :: file_info where
  "foo_link = \<lparr>FileName = ''foo-1.0-1.rpm'', FileType = Symlink, Perm = 511, Data = []\<rparr>"

section \<open>Facts about the model\<close>

lemmas model_defs = Build_def build_in_workspace_def build_steps_def build_and_package_def
  Package_def fpmArgs_def
  fpm_fields_def render_arg_def render_opt_def Render_def Cleanup_def nameGlob_def
  ioutil_ReadDir_def ioutil_TempDir_def ioutil_WriteFile_def os_Remove_def os_RemoveAll_def
  Download_def BuildSources_def exec_fpm_def path_Join_def valid_hook_def Let_def

lemmas example_defs = example_env_def foo_def foo_bogus_def foo_unclosed_def foo_sources_def
  foo_staged_def foo_pair_def foo_full_def out_dir_def no_out_dir_def foo_rpm_def foo_dir_def
  foo_link_def star_Match_def IsDir_def IsRegular_def
  failing_def failing_build_def

subsection \<open>The conflict check\<close>

lemma conflict_iff:
  "conflict E glob files \<longleftrightarrow>
     (\<exists>f \<in> set files. \<not> IsDir f \<and> fst (filepath_Match E glob (FileName f)))"
  by (induction files) auto

subsection \<open>Which calls leave the trace alone\<close>

lemma events_WriteFile: "ioutil_WriteFile E d n b perm w = (r, w1) \<Longrightarrow> events w1 = events w"
  by (auto simp: ioutil_WriteFile_def split: option.splits if_splits)

lemma events_TempDir: "ioutil_TempDir E pre w = (r, w1) \<Longrightarrow> events w1 = events w"
  by (auto simp: ioutil_TempDir_def Let_def split: option.splits)

lemma events_Remove: "os_Remove E d w = (r, w1) \<Longrightarrow> events w1 = events w"
  by (auto simp: os_Remove_def split: option.splits list.splits if_splits)

lemma events_RemoveAll: "os_RemoveAll E d w = (r, w1) \<Longrightarrow> events w1 = events w"
  by (auto simp: os_RemoveAll_def split: option.splits)

lemma events_Cleanup: "Cleanup E p w = (r, w1) \<Longrightarrow> events w1 = events w"
  by (auto simp: Cleanup_def split: option.splits prod.splits dest!: events_RemoveAll)

lemma events_write_scripts:
  "write_scripts E p sd scripts args w = (r, w1) \<Longrightarrow> events w1 = events w"
proof (induction scripts arbitrary: args w)
  case Nil
  then show ?case by simp
next
  case (Cons s scripts)
  obtain name val where s: "s = (name, val)" by (cases s)
  from Cons.prems show ?case
    by (auto simp: s split: if_splits prod.splits option.splits
             dest!: events_WriteFile Cons.IH)
qed

lemma events_fpmArgs: "fpmArgs E p w = (r, p1, w1) \<Longrightarrow> events w1 = events w"
  by (auto simp: fpmArgs_def Let_def split: sum.splits prod.splits option.splits
           dest!: events_TempDir events_write_scripts)

lemma events_Package:
  "Package E p w = (r, p1, w1) \<Longrightarrow> \<exists>rest. events w1 = events w @ rest"
  by (auto simp: Package_def exec_fpm_def split: prod.splits option.splits
           dest!: events_fpmArgs)

lemma WriteFile_failed: "ioutil_WriteFile E d n b perm w = (Some e, w1) \<Longrightarrow> w1 = w"
  by (auto simp: ioutil_WriteFile_def split: option.splits if_splits)

subsection \<open>Which fields \<open>Package\<close> leaves alone\<close>

lemma BuildRoot_fpmArgs: "fpmArgs E p w = (r, p1, w1) \<Longrightarrow> BuildRoot p1 = BuildRoot p"
  by (auto simp: fpmArgs_def Let_def split: sum.splits prod.splits option.splits)

lemma BuildRoot_Package: "Package E p w = (r, p1, w1) \<Longrightarrow> BuildRoot p1 = BuildRoot p"
  by (auto simp: Package_def split: prod.splits option.splits dest!: BuildRoot_fpmArgs)

lemma OutputRoot_fpmArgs: "fpmArgs E p w = (r, p1, w1) \<Longrightarrow> OutputRoot p1 = OutputRoot p"
  by (auto simp: fpmArgs_def Let_def split: sum.splits prod.splits option.splits)

subsection \<open>The resource loop\<close>

lemma download_resources_first_failure:
  "k < length rs \<Longrightarrow> \<forall>j<k. snd (download E (rs ! j) p) = None \<Longrightarrow>
   snd (download E (rs ! k) p) = Some e \<Longrightarrow>
   \<exists>w1. download_resources E p bd rs w = (Some e, w1) \<and>
        events w1 = events w @ map EvDownload (take (Suc k) rs)"
proof (induction rs arbitrary: k w)
  case Nil
  then show ?case by simp
next
  case (Cons s ss)
  show ?case
  proof (cases k)
    case 0
    with Cons.prems show ?thesis
      by (auto simp: Download_def split: prod.splits option.splits)
  next
    case (Suc k')
    from Cons.prems Suc have ok: "snd (download E s p) = None" by auto
    from Cons.prems Suc have k': "k' < length ss" by simp
    from Cons.prems Suc have pre: "\<forall>j<k'. snd (download E (ss ! j) p) = None" by auto
    from Cons.prems Suc have fl: "snd (download E (ss ! k') p) = Some e" by simp
    let ?w = "snd (ioutil_WriteFile E bd (ResName s) (fst (download E s p)) 511
                (w\<lparr>events := events w @ [EvDownload s]\<rparr>))"
    from Cons.IH [OF k' pre fl, of ?w] obtain w1 where
      w1: "download_resources E p bd ss ?w = (Some e, w1)"
          "events w1 = events ?w @ map EvDownload (take (Suc k') ss)" by blast
    have "events ?w = events w @ [EvDownload s]"
      using events_WriteFile [OF surjective_pairing] by simp
    with w1 ok Suc show ?thesis
      by (auto simp: Download_def split: prod.splits option.splits)
  qed
qed

lemma download_resources_all_ok:
  "\<forall>s \<in> set rs. snd (download E s p) = None \<Longrightarrow>
   \<exists>w1. download_resources E p bd rs w = (None, w1) \<and>
        events w1 = events w @ map EvDownload rs"
proof (induction rs arbitrary: w)
  case Nil
  then show ?case by simp
next
  case (Cons s ss)
  let ?w = "snd (ioutil_WriteFile E bd (ResName s) (fst (download E s p)) 511
              (w\<lparr>events := events w @ [EvDownload s]\<rparr>))"
  from Cons.prems have "\<forall>s \<in> set ss. snd (download E s p) = None" by simp
  from Cons.IH [OF this, of ?w] obtain w1 where
    w1: "download_resources E p bd ss ?w = (None, w1)"
        "events w1 = events ?w @ map EvDownload ss" by blast
  have "events ?w = events w @ [EvDownload s]"
    using events_WriteFile [OF surjective_pairing] by simp
  with w1 Cons.prems show ?case
    by (auto simp: Download_def split: prod.splits option.splits)
qed

lemma download_resources_append:
  "download_resources E p bd (xs @ ys) w =
     (case download_resources E p bd xs w of
        (Some e, w1) \<Rightarrow> (Some e, w1)
      | (None, w1) \<Rightarrow> download_resources E p bd ys w1)"
  by (induction xs arbitrary: w) (auto split: prod.splits option.splits)

lemma events_download_resources_ok:
  "download_resources E p bd rs w = (None, w1) \<Longrightarrow> events w1 = events w @ map EvDownload rs"
proof (induction rs arbitrary: w)
  case Nil
  then show ?case by simp
next
  case (Cons s ss)
  let ?w = "snd (ioutil_WriteFile E bd (ResName s) (fst (download E s p)) 511
              (w\<lparr>events := events w @ [EvDownload s]\<rparr>))"
  have e: "events ?w = events w @ [EvDownload s]"
    using events_WriteFile [OF surjective_pairing] by simp
  from Cons.prems have "download_resources E p bd ss ?w = (None, w1)"
    by (auto simp: Download_def split: prod.splits option.splits)
  from Cons.IH [OF this] e show ?case by simp
qed

subsection \<open>\<open>Build\<close> once the conflict check is passed\<close>

lemma events_build_and_package:
  "build_and_package E p bd w = (r, p3, w3) \<Longrightarrow>
   \<exists>rest. events w3 = events w @ EvBuildSources bd # rest"
  by (auto simp: build_and_package_def BuildSources_def split: prod.splits option.splits
           dest!: events_Package events_Cleanup)



lemma Build_in_workspace:
  assumes "ioutil_ReadDir E (OutputRoot p) w = Inr files"
    and "\<not> conflict E (nameGlob p) files"
    and "ioutil_TempDir E (''hammer-'' @ Name p) w = ((buildDir, None), w1)"
    and "build_steps E (p\<lparr>BuildRoot := buildDir\<rparr>) buildDir w1 = (r, p2, w2)"
  shows "Build E p w = (r, p2, snd (os_Remove E buildDir w2))"
  using assms by (simp add: Build_def build_in_workspace_def)


subsection \<open>The argument vector of a successful \<open>fpmArgs\<close>\<close>

lemma render_arg_Inr:
  "render_arg E p flag field args = Inr a \<Longrightarrow> a = args @ [flag, fst (Render E p field)]"
  by (auto simp: render_arg_def split: prod.splits option.splits)

lemma render_opt_Inr:
  "render_opt E p flag field args = Inr a \<Longrightarrow> a = args @ optional_flag E p flag field"
  by (auto simp: render_opt_def optional_flag_def split: if_splits dest: render_arg_Inr)

lemma add_depends_eq: "add_depends args ds = args @ depend_flags ds"
  by (induction ds arbitrary: args) (simp_all add: depend_flags_def)

lemma fpm_fields_Inr:
  assumes "fpm_fields E p = Inr a"
  shows "a = metadata_flags E p @ depend_flags (Depends p)"
proof -
  from assms obtain a1 a2 a3 a4 a5 a6 a7 a8 where
    s: "render_arg E p ''--name'' (Name p) [] = Inr a1"
       "render_arg E p ''--version'' (Version p) a1 = Inr a2"
       "render_arg E p ''--iteration'' (Iteration p) a2 = Inr a3"
       "render_opt E p ''--epoch'' (Epoch p) a3 = Inr a4"
       "render_opt E p ''--license'' (License p) a4 = Inr a5"
       "render_opt E p ''--vendor'' (Vendor p) a5 = Inr a6"
       "render_opt E p ''--description'' (Description p) a6 = Inr a7"
       "render_opt E p ''--url'' (URL p) a7 = Inr a8"
       "a = add_depends a8 (Depends p)"
    by (auto simp: fpm_fields_def split: sum.splits)
  from s(1-3) have "a3 = [''--name'', fst (Render E p (Name p)),
      ''--version'', fst (Render E p (Version p)),
      ''--iteration'', fst (Render E p (Iteration p))]"
    by (auto dest!: render_arg_Inr)
  moreover from s(4-8) have "a8 = a3 @ optional_flag E p ''--epoch'' (Epoch p) @
     optional_flag E p ''--license'' (License p) @
     optional_flag E p ''--vendor'' (Vendor p) @
     optional_flag E p ''--description'' (Description p) @
     optional_flag E p ''--url'' (URL p)"
    by (auto dest!: render_opt_Inr)
  ultimately show ?thesis using s(9)
    by (simp add: metadata_flags_def add_depends_eq)
qed

lemma write_scripts_ok:
  "write_scripts E p sd scripts args w = ((a, None), w1) \<Longrightarrow> a = args @ hook_flags sd scripts"
proof (induction scripts arbitrary: args w)
  case Nil
  then show ?case by (simp add: hook_flags_def)
next
  case (Cons s scripts)
  obtain name val where s: "s = (name, val)" by (cases s)
  have hf: "hook_flags sd ((name, val) # scripts) =
     (if name = ''build'' then [] else [''--'' @ name, path_Join sd name]) @ hook_flags sd scripts"
    by (simp add: hook_flags_def)
  from Cons.prems show ?case unfolding s hf
    by (auto split: if_splits prod.splits option.splits dest!: Cons.IH)
qed

lemma render_targets_ok:
  "render_targets E p ts args = (a, None) \<Longrightarrow> a = args @ target_args E p ts"
proof (induction ts arbitrary: args)
  case Nil
  then show ?case by (simp add: target_args_def)
next
  case (Cons t ts)
  have ta: "target_args E p (t # ts) =
      (fst (Render E p (Src t)) @ ''='' @ fst (Render E p (Dest t))) # target_args E p ts"
    by (simp add: target_args_def)
  from Cons.prems show ?case unfolding ta
    by (auto split: prod.splits option.splits dest!: Cons.IH)
qed

lemma fpmArgs_ok:
  assumes "fpmArgs E p w = ((args, None), p1, w1)"
  shows "p1 = p\<lparr>ScriptRoot := ScriptRoot p1\<rparr> \<and>
         args = metadata_flags E p @ depend_flags (Depends p) @
                hook_flags (ScriptRoot p1) (Scripts p) @ target_args E p1 (Targets p)"
  using assms
  by (auto simp: fpmArgs_def Let_def split: sum.splits prod.splits option.splits
           dest!: fpm_fields_Inr write_scripts_ok render_targets_ok)

subsection \<open>The script loop and names outside the list\<close>

lemma write_scripts_invalid:
  "(n, v) \<in> set scripts \<Longrightarrow> n \<noteq> ''build'' \<Longrightarrow> \<not> valid_hook n \<Longrightarrow>
   \<exists>e. snd (fst (write_scripts E p sd scripts args w)) = Some e"
proof (induction scripts arbitrary: args w)
  case Nil
  then show ?case by simp
next
  case (Cons s scripts)
  obtain name val where s: "s = (name, val)" by (cases s)
  show ?case
  proof (cases "s = (n, v)")
    case True
    with Cons.prems s show ?thesis by simp
  next
    case False
    with Cons.prems have "(n, v) \<in> set scripts" by simp
    from Cons.IH [OF this Cons.prems(2,3)] show ?thesis
      by (simp add: s split: prod.splits option.splits)
  qed
qed

lemma write_scripts_reaches_invalid:
  "(n, v) \<in> set scripts \<Longrightarrow> n \<noteq> ''build'' \<Longrightarrow> \<not> valid_hook n \<Longrightarrow>
   snd (fst (write_scripts E p sd (hooks_before_invalid scripts) args w)) = None \<Longrightarrow>
   snd (fst (write_scripts E p sd scripts args w)) = Some ErrInvalidScriptName"
proof (induction scripts arbitrary: args w)
  case Nil
  then show ?case by simp
next
  case (Cons s scripts)
  obtain name val where s: "s = (name, val)" by (cases s)
  show ?case
  proof (cases "name = ''build'' \<or> valid_hook name")
    case False
    then show ?thesis by (simp add: s)
  next
    case True
    with Cons.prems s have mem: "(n, v) \<in> set scripts" by auto
    note IH = Cons.IH [OF mem Cons.prems(2,3)]
    from True have hb: "hooks_before_invalid (s # scripts) = (name, val) # hooks_before_invalid scripts"
      by (simp add: hooks_before_invalid_def s)
    note prem = Cons.prems(4) [unfolded hb]
    show ?thesis
    proof (cases "name = ''build''")
      case True
      with prem have "snd (fst (write_scripts E p sd (hooks_before_invalid scripts) args w)) = None"
        by simp
      from IH [OF this] show ?thesis by (simp add: s True)
    next
      case False
      with True have vh: "valid_hook name" by simp
      obtain content err where R: "Render E p val = (content, err)" by (cases "Render E p val")
      obtain r w1 where W: "ioutil_WriteFile E sd name content 493 w = (r, w1)"
        by (cases "ioutil_WriteFile E sd name content 493 w")
      from prem False vh R have err: "err = None" by (cases err) simp_all
      from prem False vh R W err have r: "r = None" by (cases r) simp_all
      from prem False vh R W err r have
        "snd (fst (write_scripts E p sd (hooks_before_invalid scripts)
           (args @ [''--'' @ name, path_Join sd name]) w1)) = None" by simp
      from IH [OF this] show ?thesis by (simp add: s False vh R W err r)
    qed
  qed
qed

section \<open>The claims\<close>

subsection \<open>C1: an existing artifact skips the build; a listing failure is returned\<close>

text \<open>
  Claim C1.  When the listing of the output directory holds an entry that is
  not a directory and that matches the glob built from the literal name,
  version and iteration, \<open>Build\<close> returns no error and leaves the package and
  the world as they were: nothing is downloaded, no build script runs and
  the backend is not invoked.  When listing the output directory fails,
  \<open>Build\<close> returns that error.
\<close>

theorem Build_skips_on_conflict:
  "(ioutil_ReadDir E (OutputRoot p) w = Inr files \<longrightarrow>
      (\<exists>f \<in> set files. \<not> IsDir f \<and> fst (filepath_Match E (nameGlob p) (FileName f))) \<longrightarrow>
      Build E p w = (None, p, w)) \<and>
   (ioutil_ReadDir E (OutputRoot p) w = Inl e \<longrightarrow> Build E p w = (Some e, p, w))"
  by (simp add: Build_def conflict_iff)

text \<open>
  With \<open>foo-1.0-1.rpm\<close> in the output directory the build of \<open>foo\<close> is skipped;
  without an output directory the listing error comes back.
\<close>

theorem Build_skips_on_conflict_witness:
  "Build example_env foo (out_dir [foo_rpm]) = (None, foo, out_dir [foo_rpm]) \<and>
   Build example_env foo no_out_dir =
     (Some (ExtError ''no such file or directory''), foo, no_out_dir)"
proof -
  have l: "ioutil_ReadDir example_env (OutputRoot foo) (out_dir [foo_rpm]) = Inr [foo_rpm]"
    by (simp add: ioutil_ReadDir_def example_defs)
  have m: "\<exists>f \<in> set [foo_rpm].
      \<not> IsDir f \<and> fst (filepath_Match example_env (nameGlob foo) (FileName f))"
    by (simp add: nameGlob_def example_defs)
  have n: "ioutil_ReadDir example_env (OutputRoot foo) no_out_dir =
      Inl (ExtError ''no such file or directory'')"
    by (simp add: ioutil_ReadDir_def example_defs)
  from Build_skips_on_conflict [of example_env foo "out_dir [foo_rpm]" "[foo_rpm]"] l m
    Build_skips_on_conflict [of example_env foo no_out_dir _ "ExtError ''no such file or directory''"] n
  show ?thesis by blast
qed

subsection \<open>C2: the workspaces after a failed build\<close>

text \<open>
  Claim C2 says that both workspaces are gone whenever \<open>Build\<close> returns after
  the conflict check.  \<open>Cleanup\<close> is called on the successful path only, and
  the deferred \<open>os.Remove\<close> covers the build directory alone, and only when it
  is empty.  The build of \<open>foo\<close> with the hook \<open>bogus-hook\<close> returns the
  invalid-script-name error and leaves the script directory behind; the
  build of \<open>foo\<close> with one resource and a failing build script returns the
  script's error and leaves the build directory behind with the resource in
  it.
\<close>

theorem Build_leaves_workspaces_on_error:
  "fst (Build example_env foo_bogus (out_dir [])) = Some ErrInvalidScriptName \<and>
   ScriptRoot (fst (snd (Build example_env foo_bogus (out_dir [])))) =
     ''/tmp/hammer-scripts-foo042'' \<and>
   dirs (snd (snd (Build example_env foo_bogus (out_dir [])))) ''/tmp/hammer-scripts-foo042'' =
     Some [] \<and>
   fst (Build (failing_build example_env) foo_staged (out_dir [])) =
     Some (ExtError ''exit status 1'') \<and>
   BuildRoot (fst (snd (Build (failing_build example_env) foo_staged (out_dir [])))) =
     ''/tmp/hammer-foo042'' \<and>
   dirs (snd (snd (Build (failing_build example_env) foo_staged (out_dir []))))
       ''/tmp/hammer-foo042'' =
     Some [\<lparr>FileName = ''a.tar'', FileType = Regular, Perm = 511, Data = ''aaa''\<rparr>]"
  by (simp add: model_defs example_defs)

subsection \<open>C3: a hook name outside the list\<close>

text \<open>
  Claim C3 as stated: with a hook name outside the list, \<open>Package\<close> returns
  the invalid-script-name error.  It does not when an earlier step fails
  first: the version \<open>{{\<close> of \<open>foo_unclosed\<close> is an unclosed template action, so
  \<open>fpmArgs\<close> returns the template error on line 202, before the scripts are
  looked at.
\<close>

theorem Package_invalid_hook_counterexample:
  "(''bogus-hook'', ''echo x'') \<in> set (Scripts foo_unclosed) \<and>
   ''bogus-hook'' \<notin> {''build'', ''before-install'', ''after-install'', ''before-remove'',
     ''after-remove'', ''before-upgrade'', ''after-upgrade''} \<and>
   snd (fst (Package example_env foo_unclosed (out_dir []))) =
     Some (ExtError ''unclosed action'') \<and>
   snd (fst (Package example_env foo_unclosed (out_dir []))) \<noteq> Some ErrInvalidScriptName"
  by (simp add: model_defs example_defs)

text \<open>
  Claim C3, amended.  For every package whose script set has a hook name
  outside \<open>build\<close>, \<open>before-install\<close>, \<open>after-install\<close>, \<open>before-remove\<close>,
  \<open>after-remove\<close>, \<open>before-upgrade\<close>, \<open>after-upgrade\<close>, in whatever order the
  loop visits the script set, \<open>Package\<close> returns an error and the backend is
  never invoked: the trace is unchanged.  The error is the
  invalid-script-name error whenever the steps before the name is tested
  succeed, that is, the metadata fields render, the script directory is
  created, and the hooks visited before it are rendered and written.
\<close>

theorem Package_invalid_hook:
  assumes "(n, v) \<in> set (Scripts p)"
    and "n \<notin> {''build'', ''before-install'', ''after-install'', ''before-remove'',
               ''after-remove'', ''before-upgrade'', ''after-upgrade''}"
  shows "(\<exists>e. snd (fst (Package E p w)) = Some e) \<and>
         events (snd (snd (Package E p w))) = events w \<and>
         (\<forall>a scriptDir w1.
            fpm_fields E p = Inr a \<longrightarrow>
            ioutil_TempDir E (''hammer-scripts-'' @ Name p) w = ((scriptDir, None), w1) \<longrightarrow>
            snd (fst (write_scripts E (p\<lparr>ScriptRoot := scriptDir\<rparr>) scriptDir
                   (hooks_before_invalid (Scripts p)) a w1)) = None \<longrightarrow>
            snd (fst (Package E p w)) = Some ErrInvalidScriptName)"
proof -
  from assms(2) have nb: "n \<noteq> ''build''" and nv: "\<not> valid_hook n"
    by (auto simp: valid_hook_def)
  have "\<exists>args e p1 w1. fpmArgs E p w = ((args, Some e), p1, w1)"
    using write_scripts_invalid [OF assms(1) nb nv]
    apply (simp add: fpmArgs_def Let_def split: sum.splits prod.splits option.splits)
    by (metis fst_conv option.distinct(1) snd_conv)
  then obtain args e p1 w1 where f: "fpmArgs E p w = ((args, Some e), p1, w1)" by blast
  have P: "Package E p w = (([], Some e), p1, w1)" using f by (simp add: Package_def)
  have ev: "events w1 = events w" using events_fpmArgs [OF f] .
  have exact: "e = ErrInvalidScriptName"
    if "fpm_fields E p = Inr a"
      "ioutil_TempDir E (''hammer-scripts-'' @ Name p) w = ((scriptDir, None), w2)"
      "snd (fst (write_scripts E (p\<lparr>ScriptRoot := scriptDir\<rparr>) scriptDir
                   (hooks_before_invalid (Scripts p)) a w2)) = None"
    for a scriptDir w2
    using write_scripts_reaches_invalid [OF assms(1) nb nv that(3)] that(1,2) f
    by (auto simp: fpmArgs_def Let_def split: sum.splits prod.splits option.splits)
  show ?thesis using P ev exact by auto
qed

text \<open>
  For \<open>foo\<close> with the hook \<open>bogus-hook\<close> the steps before the test succeed, the
  error is the invalid-script-name error and the trace stays empty.
\<close>

theorem Package_invalid_hook_witness:
  "snd (fst (Package example_env foo_bogus (out_dir []))) = Some ErrInvalidScriptName \<and>
   events (snd (snd (Package example_env foo_bogus (out_dir [])))) = []"
proof -
  let ?a = "[''--name'', ''foo'', ''--version'', ''1.0'', ''--iteration'', ''1'']"
  let ?sd = "''/tmp/hammer-scripts-foo042''"
  let ?w1 = "snd (ioutil_TempDir example_env (''hammer-scripts-'' @ Name foo_bogus) (out_dir []))"
  have m: "(''bogus-hook'', ''echo x'') \<in> set (Scripts foo_bogus)"
    by (simp add: example_defs)
  have n: "''bogus-hook'' \<notin> {''build'', ''before-install'', ''after-install'', ''before-remove'',
               ''after-remove'', ''before-upgrade'', ''after-upgrade''}" by simp
  have f: "fpm_fields example_env foo_bogus = Inr ?a"
    by (simp add: model_defs example_defs)
  have t: "ioutil_TempDir example_env (''hammer-scripts-'' @ Name foo_bogus) (out_dir []) =
      ((?sd, None), ?w1)"
    by (simp add: model_defs example_defs)
  have h: "snd (fst (write_scripts example_env (foo_bogus\<lparr>ScriptRoot := ?sd\<rparr>) ?sd
      (hooks_before_invalid (Scripts foo_bogus)) ?a ?w1)) = None"
    by (simp add: hooks_before_invalid_def model_defs example_defs)
  from Package_invalid_hook [OF m n, of example_env "out_dir []"] f t h show ?thesis
    by (simp add: example_defs)
qed

subsection \<open>C4: a failed download ends the build\<close>

text \<open>
  Claim C4.  Let \<open>Build\<close> pass the conflict check and create its build
  directory, and let the download of resource \<open>k\<close> be reached (the downloads
  of the resources before it succeed) and fail with \<open>e\<close>.  Then \<open>Build\<close>
  returns \<open>e\<close>, and all it has added to the trace are the downloads of
  resources \<open>0\<close> to \<open>k\<close>: the resources after \<open>k\<close> are not downloaded, the
  build script does not run and the backend is not invoked.
\<close>

theorem Build_download_failure:
  assumes "ioutil_ReadDir E (OutputRoot p) w = Inr files"
    and "\<not> conflict E (nameGlob p) files"
    and "ioutil_TempDir E (''hammer-'' @ Name p) w = ((buildDir, None), w1)"
    and "k < length (Resources p)"
    and "\<forall>j<k. snd (download E (Resources p ! j) (p\<lparr>BuildRoot := buildDir\<rparr>)) = None"
    and "snd (download E (Resources p ! k) (p\<lparr>BuildRoot := buildDir\<rparr>)) = Some e"
  shows "fst (Build E p w) = Some e \<and>
         events (snd (snd (Build E p w))) =
           events w @ map EvDownload (take (Suc k) (Resources p))"
proof -
  let ?p = "p\<lparr>BuildRoot := buildDir\<rparr>"
  from download_resources_first_failure [of k "Resources ?p" E ?p e buildDir w1] assms(4-6)
  obtain w2 where w2: "download_resources E ?p buildDir (Resources ?p) w1 = (Some e, w2)"
    "events w2 = events w1 @ map EvDownload (take (Suc k) (Resources p))" by auto
  have e1: "events w1 = events w" using events_TempDir [OF assms(3)] .
  have st: "build_steps E ?p buildDir w1 = (Some e, ?p, w2)"
    using w2(1) by (simp add: build_steps_def)
  have "Build E p w = (Some e, ?p, snd (os_Remove E buildDir w2))"
    using assms(1-3) st by (simp add: Build_def build_in_workspace_def)
  moreover have "events (snd (os_Remove E buildDir w2)) = events w2"
    using events_Remove [OF surjective_pairing] .
  ultimately show ?thesis using w2(2) e1 by simp
qed

text \<open>
  Of the three resources of \<open>foo_sources\<close> the second fails: the first two are
  downloaded, the third is not, and nothing else happens.
\<close>

theorem Build_download_failure_witness:
  "fst (Build example_env foo_sources (out_dir [])) = Some (ExtError ''no source'') \<and>
   events (snd (snd (Build example_env foo_sources (out_dir [])))) =
     [EvDownload \<lparr>ResName = ''a.tar'', ResSource = ''aaa''\<rparr>,
      EvDownload \<lparr>ResName = ''b.tar'', ResSource = []\<rparr>]"
proof -
  let ?bd = "''/tmp/hammer-foo042''"
  let ?w1 = "snd (ioutil_TempDir example_env (''hammer-'' @ Name foo_sources) (out_dir []))"
  have 1: "ioutil_ReadDir example_env (OutputRoot foo_sources) (out_dir []) = Inr []"
    by (simp add: model_defs example_defs)
  have 2: "\<not> conflict example_env (nameGlob foo_sources) []" by simp
  have 3: "ioutil_TempDir example_env (''hammer-'' @ Name foo_sources) (out_dir []) =
      ((?bd, None), ?w1)"
    by (simp add: model_defs example_defs)
  have 4: "1 < length (Resources foo_sources)" by (simp add: example_defs)
  have 5: "\<forall>j<1. snd (download example_env (Resources foo_sources ! j)
      (foo_sources\<lparr>BuildRoot := ?bd\<rparr>)) = None"
    by (simp add: example_defs)
  have 6: "snd (download example_env (Resources foo_sources ! 1)
      (foo_sources\<lparr>BuildRoot := ?bd\<rparr>)) = Some (ExtError ''no source'')"
    by (simp add: example_defs)
  from Build_download_failure [OF 1 2 3 4 5 6] show ?thesis by (simp add: example_defs)
qed

subsection \<open>C5: a failed removal is the result of a successful build\<close>

text \<open>
  Claim C5.  Let \<open>Build\<close> pass the conflict check and create its build
  directory, and let the resources, the build script and \<open>Package\<close> succeed.
  The package then has the build directory as its \<open>BuildRoot\<close>.  If removing
  \<open>BuildRoot\<close> fails with \<open>e\<close>, \<open>Build\<close> returns \<open>e\<close>; if that removal succeeds
  and removing \<open>ScriptRoot\<close> fails with \<open>e\<close>, \<open>Build\<close> returns \<open>e\<close>.
\<close>

theorem Build_returns_cleanup_error:
  assumes "ioutil_ReadDir E (OutputRoot p) w = Inr files"
    and "\<not> conflict E (nameGlob p) files"
    and "ioutil_TempDir E (''hammer-'' @ Name p) w = ((buildDir, None), w1)"
    and "download_resources E (p\<lparr>BuildRoot := buildDir\<rparr>) buildDir (Resources p) w1 = (None, w2)"
    and "BuildSources E (Scripts p) buildDir w2 = ((out, None), w3)"
    and "Package E (p\<lparr>BuildRoot := buildDir\<rparr>) w3 = ((out2, None), p4, w4)"
  shows "BuildRoot p4 = buildDir \<and>
         (\<forall>e. fst (os_RemoveAll E (BuildRoot p4) w4) = Some e \<longrightarrow>
              fst (Build E p w) = Some e) \<and>
         (\<forall>e w5. os_RemoveAll E (BuildRoot p4) w4 = (None, w5) \<longrightarrow>
                 fst (os_RemoveAll E (ScriptRoot p4) w5) = Some e \<longrightarrow>
                 fst (Build E p w) = Some e)"
proof -
  let ?p = "p\<lparr>BuildRoot := buildDir\<rparr>"
  have st: "build_steps E ?p buildDir w1 = (fst (Cleanup E p4 w4), p4, snd (Cleanup E p4 w4))"
    using assms(4-6) by (simp add: build_steps_def build_and_package_def split: prod.splits)
  have B: "fst (Build E p w) = fst (Cleanup E p4 w4)"
    using assms(1-3) st by (simp add: Build_def build_in_workspace_def)
  have "BuildRoot p4 = buildDir" using BuildRoot_Package [OF assms(6)] by simp
  then show ?thesis unfolding B
    by (auto simp: Cleanup_def split: prod.splits option.splits)
qed

text \<open>
  The build of \<open>foo\<close> succeeds up to the packaging; when the build directory
  cannot be removed, or when the script directory cannot, that error is what
  \<open>Build\<close> returns.
\<close>

theorem Build_returns_cleanup_error_witness:
  "fst (Build (failing (SysRemoveAll ''/tmp/hammer-foo042'') (ExtError ''permission denied'')
          example_env) foo (out_dir [])) = Some (ExtError ''permission denied'') \<and>
   fst (Build (failing (SysRemoveAll ''/tmp/hammer-scripts-foo042'') (ExtError ''device busy'')
          example_env) foo (out_dir [])) = Some (ExtError ''device busy'')"
proof -
  let ?bd = "''/tmp/hammer-foo042''"
  let ?sd = "''/tmp/hammer-scripts-foo042''"
  let ?p = "foo\<lparr>BuildRoot := ?bd\<rparr>"
  let ?p4 = "foo\<lparr>BuildRoot := ?bd, ScriptRoot := ?sd\<rparr>"
  have A: "fst (Build E foo (out_dir [])) = Some e"
    if E: "E = failing (SysRemoveAll ?bd) e example_env" for E e
  proof -
    let ?w1 = "snd (ioutil_TempDir E (''hammer-'' @ Name foo) (out_dir []))"
    let ?w3 = "snd (BuildSources E (Scripts foo) ?bd ?w1)"
    let ?w4 = "snd (snd (Package E ?p ?w3))"
    have 1: "ioutil_ReadDir E (OutputRoot foo) (out_dir []) = Inr []"
      by (simp add: E model_defs example_defs)
    have 2: "\<not> conflict E (nameGlob foo) []" by simp
    have 3: "ioutil_TempDir E (''hammer-'' @ Name foo) (out_dir []) = ((?bd, None), ?w1)"
      by (simp add: E model_defs example_defs)
    have 4: "download_resources E ?p ?bd (Resources foo) ?w1 = (None, ?w1)"
      by (simp add: example_defs)
    have 5: "BuildSources E (Scripts foo) ?bd ?w1 = ((''done'', None), ?w3)"
      by (simp add: E model_defs example_defs)
    have 6: "Package E ?p ?w3 = ((''created package'', None), ?p4, ?w4)"
      by (simp add: E model_defs example_defs)
    have "fst (os_RemoveAll E (BuildRoot ?p4) ?w4) = Some e"
      by (simp add: E os_RemoveAll_def failing_def)
    with Build_returns_cleanup_error [OF 1 2 3 4 5 6] show ?thesis by blast
  qed
  have B: "fst (Build E foo (out_dir [])) = Some e"
    if E: "E = failing (SysRemoveAll ?sd) e example_env" for E e
  proof -
    let ?w1 = "snd (ioutil_TempDir E (''hammer-'' @ Name foo) (out_dir []))"
    let ?w3 = "snd (BuildSources E (Scripts foo) ?bd ?w1)"
    let ?w4 = "snd (snd (Package E ?p ?w3))"
    let ?w5 = "snd (os_RemoveAll E (BuildRoot ?p4) ?w4)"
    have 1: "ioutil_ReadDir E (OutputRoot foo) (out_dir []) = Inr []"
      by (simp add: E model_defs example_defs)
    have 2: "\<not> conflict E (nameGlob foo) []" by simp
    have 3: "ioutil_TempDir E (''hammer-'' @ Name foo) (out_dir []) = ((?bd, None), ?w1)"
      by (simp add: E model_defs example_defs)
    have 4: "download_resources E ?p ?bd (Resources foo) ?w1 = (None, ?w1)"
      by (simp add: example_defs)
    have 5: "BuildSources E (Scripts foo) ?bd ?w1 = ((''done'', None), ?w3)"
      by (simp add: E model_defs example_defs)
    have 6: "Package E ?p ?w3 = ((''created package'', None), ?p4, ?w4)"
      by (simp add: E model_defs example_defs)
    have 7: "os_RemoveAll E (BuildRoot ?p4) ?w4 = (None, ?w5)"
      by (simp add: E os_RemoveAll_def failing_def example_env_def)
    have 8: "fst (os_RemoveAll E (ScriptRoot ?p4) ?w5) = Some e"
      by (simp add: E os_RemoveAll_def failing_def)
    from Build_returns_cleanup_error [OF 1 2 3 4 5 6] 7 8 show ?thesis by blast
  qed
  from A B show ?thesis by blast
qed

subsection \<open>C7: optional metadata\<close>

text \<open>
  Claim C7.  When \<open>fpmArgs\<close> succeeds, its arguments are: name, version and
  iteration; then, for each of epoch, license, vendor, description and url
  in this order, the flag and the rendered value when the manifest field is
  not the empty string and nothing at all when it is; then the dependencies,
  the hooks and the targets.
\<close>

theorem fpmArgs_optional_fields:
  assumes "fpmArgs E p w = ((args, None), p1, w1)"
  shows "args =
     [''--name'', fst (Render E p (Name p)),
      ''--version'', fst (Render E p (Version p)),
      ''--iteration'', fst (Render E p (Iteration p))] @
     (if Epoch p = [] then [] else [''--epoch'', fst (Render E p (Epoch p))]) @
     (if License p = [] then [] else [''--license'', fst (Render E p (License p))]) @
     (if Vendor p = [] then [] else [''--vendor'', fst (Render E p (Vendor p))]) @
     (if Description p = [] then []
      else [''--description'', fst (Render E p (Description p))]) @
     (if URL p = [] then [] else [''--url'', fst (Render E p (URL p))]) @
     depend_flags (Depends p) @ hook_flags (ScriptRoot p1) (Scripts p) @
     target_args E p1 (Targets p)"
proof -
  from fpmArgs_ok [OF assms] have
    "args = metadata_flags E p @ depend_flags (Depends p) @
            hook_flags (ScriptRoot p1) (Scripts p) @ target_args E p1 (Targets p)" ..
  then show ?thesis by (simp add: metadata_flags_def optional_flag_def)
qed

text \<open>
  \<open>foo_full\<close> has an epoch, a license and a url, and neither vendor nor
  description.
\<close>

theorem fpmArgs_optional_fields_witness:
  "fst (fst (fpmArgs example_env foo_full (out_dir []))) =
     [''--name'', ''foo'', ''--version'', ''1.0'', ''--iteration'', ''1'',
      ''--epoch'', ''2'', ''--license'', ''1.0'', ''--url'', ''http://foo.example'',
      ''--depend'', ''bar >= {{.Version}}'', ''--depend'', ''{{.Version}}'',
      ''--after-install'', ''/tmp/hammer-scripts-foo042/after-install'',
      ''bin/foo=/usr/bin/foo'']"
proof -
  let ?r = "fpmArgs example_env foo_full (out_dir [])"
  have h: "?r = ((fst (fst ?r), None),
      foo_full\<lparr>ScriptRoot := ''/tmp/hammer-scripts-foo042''\<rparr>, snd (snd ?r))"
    by (simp add: model_defs example_defs)
  from fpmArgs_optional_fields [OF h] show ?thesis
    by (simp add: depend_flags_def hook_flags_def target_args_def Render_def path_Join_def
          example_defs)
qed

subsection \<open>C8: dependencies are passed as written\<close>

text \<open>
  Claim C8.  When \<open>fpmArgs\<close> succeeds, the arguments are the metadata flags,
  then \<open>--depend d\<close> for every entry \<open>d\<close> of the depends list, in the order of
  the list and with \<open>d\<close> as the manifest has it (no rendering is applied to
  it), then the hooks and the targets; and \<open>Package\<close> invokes the backend
  once, with these arguments after the fixed prefix.
\<close>

theorem fpmArgs_depends_verbatim:
  assumes "fpmArgs E p w = ((args, None), p1, w1)"
  shows "args = metadata_flags E p @
           concat (map (\<lambda>depend. [''--depend'', depend]) (Depends p)) @
           hook_flags (ScriptRoot p1) (Scripts p) @ target_args E p1 (Targets p) \<and>
         events (snd (snd (Package E p w))) =
           events w @ [EvFpm ([''-s'', ''dir'', ''-t'', ''rpm'', ''-p'', OutputRoot p] @ args)]"
proof -
  from fpmArgs_ok [OF assms] have
    a: "args = metadata_flags E p @ depend_flags (Depends p) @
            hook_flags (ScriptRoot p1) (Scripts p) @ target_args E p1 (Targets p)" ..
  have o: "OutputRoot p1 = OutputRoot p" using OutputRoot_fpmArgs [OF assms] .
  have e: "events w1 = events w" using events_fpmArgs [OF assms] .
  have "events (snd (snd (Package E p w))) =
      events w @ [EvFpm ([''-s'', ''dir'', ''-t'', ''rpm'', ''-p'', OutputRoot p] @ args)]"
    using assms e o
    by (auto simp: Package_def exec_fpm_def split: prod.splits option.splits)
  with a show ?thesis by (simp add: depend_flags_def)
qed

text \<open>
  The two dependencies of \<open>foo_full\<close> contain \<open>{{.Version}}\<close>; the license,
  which is rendered, becomes \<open>1.0\<close>, the dependencies stay as they are.
\<close>

theorem fpmArgs_depends_verbatim_witness:
  "events (snd (snd (Package example_env foo_full (out_dir [])))) =
     [EvFpm [''-s'', ''dir'', ''-t'', ''rpm'', ''-p'', ''out'',
      ''--name'', ''foo'', ''--version'', ''1.0'', ''--iteration'', ''1'',
      ''--epoch'', ''2'', ''--license'', ''1.0'', ''--url'', ''http://foo.example'',
      ''--depend'', ''bar >= {{.Version}}'', ''--depend'', ''{{.Version}}'',
      ''--after-install'', ''/tmp/hammer-scripts-foo042/after-install'',
      ''bin/foo=/usr/bin/foo'']]"
proof -
  let ?r = "fpmArgs example_env foo_full (out_dir [])"
  have h: "?r = ((fst (fst ?r), None),
      foo_full\<lparr>ScriptRoot := ''/tmp/hammer-scripts-foo042''\<rparr>, snd (snd ?r))"
    by (simp add: model_defs example_defs)
  from fpmArgs_depends_verbatim [OF h] show ?thesis
    by (simp add: metadata_flags_def optional_flag_def hook_flags_def target_args_def
          Render_def path_Join_def example_defs)
qed

subsection \<open>C9: a failed write of a resource is ignored\<close>

text \<open>
  Claim C9 as stated: when the write of a downloaded resource fails, \<open>Build\<close>
  continues to the build-script step.  It does not when a later download
  fails: with a full disk the write of \<open>a.tar\<close> of \<open>foo_sources\<close> fails after
  its download has succeeded, the download of \<open>b.tar\<close> fails next, \<open>Build\<close>
  returns that error on line 112, and no build script runs.
\<close>

theorem Build_ignores_write_error_counterexample:
  "snd (download
      (failing (SysWriteFile ''/tmp/hammer-foo042/a.tar'') (ExtError ''disk full'') example_env)
      \<lparr>ResName = ''a.tar'', ResSource = ''aaa''\<rparr>
      (foo_sources\<lparr>BuildRoot := ''/tmp/hammer-foo042''\<rparr>)) = None \<and>
   fst (ioutil_WriteFile
      (failing (SysWriteFile ''/tmp/hammer-foo042/a.tar'') (ExtError ''disk full'') example_env)
      ''/tmp/hammer-foo042'' ''a.tar'' ''aaa'' 511
      \<lparr>dirs = [''out'' \<mapsto> [], ''/tmp/hammer-foo042'' \<mapsto> []],
        events = [EvDownload \<lparr>ResName = ''a.tar'', ResSource = ''aaa''\<rparr>]\<rparr>) =
     Some (ExtError ''disk full'') \<and>
   fst (Build
      (failing (SysWriteFile ''/tmp/hammer-foo042/a.tar'') (ExtError ''disk full'') example_env)
      foo_sources (out_dir [])) = Some (ExtError ''no source'') \<and>
   EvBuildSources ''/tmp/hammer-foo042'' \<notin> set (events (snd (snd (Build
      (failing (SysWriteFile ''/tmp/hammer-foo042/a.tar'') (ExtError ''disk full'') example_env)
      foo_sources (out_dir [])))))"
  by (simp add: model_defs example_defs)

text \<open>
  Claim C9, amended.  Let \<open>Build\<close> pass the conflict check and create its
  build directory, let the loop reach the resource \<open>s\<close> (the resources \<open>pre\<close>
  before it are downloaded), let the download of \<open>s\<close> succeed and the write
  of its bytes into the build directory fail.  Then \<open>Build\<close> ignores the
  write error: the loop goes on with the resources \<open>post\<close> after \<open>s\<close>, from
  the world the download of \<open>s\<close> left.  When one of their downloads fails,
  that error is the result of \<open>Build\<close> and nothing after it happens.  When
  their downloads succeed, the build script is run next, the result of
  \<open>Build\<close> is the result of the build script, the packaging and the cleanup,
  and it is no error when these three succeed.
\<close>

theorem Build_ignores_write_error:
  assumes "ioutil_ReadDir E (OutputRoot p) w = Inr files"
    and "\<not> conflict E (nameGlob p) files"
    and "ioutil_TempDir E (''hammer-'' @ Name p) w = ((buildDir, None), w1)"
    and "Resources p = pre @ s # post"
    and "download_resources E (p\<lparr>BuildRoot := buildDir\<rparr>) buildDir pre w1 = (None, wp)"
    and "Download E s (p\<lparr>BuildRoot := buildDir\<rparr>) wp = ((body, None), wd)"
    and "ioutil_WriteFile E buildDir (ResName s) body 511 wd = (Some e, ww)"
  shows "download_resources E (p\<lparr>BuildRoot := buildDir\<rparr>) buildDir (Resources p) w1 =
           download_resources E (p\<lparr>BuildRoot := buildDir\<rparr>) buildDir post wd \<and>
         (\<forall>k e'. k < length post \<longrightarrow>
            (\<forall>j<k. snd (download E (post ! j) (p\<lparr>BuildRoot := buildDir\<rparr>)) = None) \<longrightarrow>
            snd (download E (post ! k) (p\<lparr>BuildRoot := buildDir\<rparr>)) = Some e' \<longrightarrow>
            fst (Build E p w) = Some e' \<and>
            events (snd (snd (Build E p w))) =
              events w @ map EvDownload (pre @ s # take (Suc k) post)) \<and>
         ((\<forall>r \<in> set post. snd (download E r (p\<lparr>BuildRoot := buildDir\<rparr>)) = None) \<longrightarrow>
            (\<exists>w2. download_resources E (p\<lparr>BuildRoot := buildDir\<rparr>) buildDir post wd = (None, w2) \<and>
               fst (Build E p w) = fst (build_and_package E (p\<lparr>BuildRoot := buildDir\<rparr>) buildDir w2) \<and>
               (\<exists>rest. events (snd (snd (Build E p w))) =
                  events w @ map EvDownload (Resources p) @ EvBuildSources buildDir # rest) \<and>
               (\<forall>out w3 out2 p4 w4 w5.
                  BuildSources E (Scripts p) buildDir w2 = ((out, None), w3) \<longrightarrow>
                  Package E (p\<lparr>BuildRoot := buildDir\<rparr>) w3 = ((out2, None), p4, w4) \<longrightarrow>
                  Cleanup E p4 w4 = (None, w5) \<longrightarrow>
                  fst (Build E p w) = None)))"
proof -
  let ?p = "p\<lparr>BuildRoot := buildDir\<rparr>"
  have ww: "ww = wd" using WriteFile_failed [OF assms(7)] .
  have step: "download_resources E ?p buildDir (s # post) wp =
      download_resources E ?p buildDir post wd"
    using assms(6,7) ww by simp
  have loop: "download_resources E ?p buildDir (Resources p) w1 =
      download_resources E ?p buildDir post wd"
    using assms(4,5) step by (simp add: download_resources_append)
  have e1: "events w1 = events w" using events_TempDir [OF assms(3)] .
  have ep: "events wp = events w @ map EvDownload pre"
    using events_download_resources_ok [OF assms(5)] e1 by simp
  have ed: "events wd = events w @ map EvDownload pre @ [EvDownload s]"
    using assms(6) ep by (auto simp: Download_def)
  have later: "fst (Build E p w) = Some e' \<and>
      events (snd (snd (Build E p w))) = events w @ map EvDownload (pre @ s # take (Suc k) post)"
    if k: "k < length post"
      and ok: "\<forall>j<k. snd (download E (post ! j) ?p) = None"
      and fl: "snd (download E (post ! k) ?p) = Some e'" for k e'
  proof -
    from download_resources_first_failure [OF k ok fl, of buildDir wd]
    obtain w2 where w2: "download_resources E ?p buildDir post wd = (Some e', w2)"
      "events w2 = events wd @ map EvDownload (take (Suc k) post)" by blast
    have st: "build_steps E ?p buildDir w1 = (Some e', ?p, w2)"
      using loop w2(1) by (simp add: build_steps_def)
    have "events (snd (os_Remove E buildDir w2)) = events w2"
      using events_Remove [OF surjective_pairing] .
    with Build_in_workspace [OF assms(1-3) st] w2(2) ed show ?thesis by simp
  qed
  have all: "\<exists>w2. download_resources E ?p buildDir post wd = (None, w2) \<and>
       fst (Build E p w) = fst (build_and_package E ?p buildDir w2) \<and>
       (\<exists>rest. events (snd (snd (Build E p w))) =
          events w @ map EvDownload (Resources p) @ EvBuildSources buildDir # rest) \<and>
       (\<forall>out w3 out2 p4 w4 w5.
          BuildSources E (Scripts p) buildDir w2 = ((out, None), w3) \<longrightarrow>
          Package E ?p w3 = ((out2, None), p4, w4) \<longrightarrow>
          Cleanup E p4 w4 = (None, w5) \<longrightarrow>
          fst (Build E p w) = None)"
    if ok: "\<forall>r \<in> set post. snd (download E r ?p) = None"
  proof -
    from download_resources_all_ok [OF ok, of buildDir wd]
    obtain w2 where w2: "download_resources E ?p buildDir post wd = (None, w2)"
      "events w2 = events wd @ map EvDownload post" by blast
    obtain r p3 w3 where bp: "build_and_package E ?p buildDir w2 = (r, p3, w3)"
      by (cases "build_and_package E ?p buildDir w2") auto
    have st: "build_steps E ?p buildDir w1 = (r, p3, w3)"
      using loop w2(1) bp by (simp add: build_steps_def)
    note B = Build_in_workspace [OF assms(1-3) st]
    from events_build_and_package [OF bp] obtain rest where
      r: "events w3 = events w2 @ EvBuildSources buildDir # rest" ..
    have "events (snd (os_Remove E buildDir w3)) = events w3"
      using events_Remove [OF surjective_pairing] .
    with B r w2(2) ed assms(4) have ev: "events (snd (snd (Build E p w))) =
        events w @ map EvDownload (Resources p) @ EvBuildSources buildDir # rest" by simp
    have res: "fst (Build E p w) = fst (build_and_package E ?p buildDir w2)"
      using B bp by simp
    have "fst (build_and_package E ?p buildDir w2) = None"
      if "BuildSources E (Scripts p) buildDir w2 = ((out, None), w3')"
        "Package E ?p w3' = ((out2, None), p4, w4)" "Cleanup E p4 w4 = (None, w5)"
      for out w3' out2 p4 w4 w5
      using that by (simp add: build_and_package_def)
    with w2(1) res ev show ?thesis by auto
  qed
  from loop later all show ?thesis by blast
qed

text \<open>
  With a full disk the write of \<open>a.tar\<close> fails.  The build of \<open>foo_pair\<close> goes
  on with \<open>c.tar\<close>, the build script and the backend, and succeeds; the build
  of \<open>foo_sources\<close> goes on with \<open>b.tar\<close> and returns the error of its
  download.
\<close>

theorem Build_ignores_write_error_witness:
  "fst (Build
      (failing (SysWriteFile ''/tmp/hammer-foo042/a.tar'') (ExtError ''disk full'') example_env)
      foo_pair (out_dir [])) = None \<and>
   events (snd (snd (Build
      (failing (SysWriteFile ''/tmp/hammer-foo042/a.tar'') (ExtError ''disk full'') example_env)
      foo_pair (out_dir [])))) =
     [EvDownload \<lparr>ResName = ''a.tar'', ResSource = ''aaa''\<rparr>,
      EvDownload \<lparr>ResName = ''c.tar'', ResSource = ''ccc''\<rparr>,
      EvBuildSources ''/tmp/hammer-foo042'',
      EvFpm [''-s'', ''dir'', ''-t'', ''rpm'', ''-p'', ''out'',
        ''--name'', ''foo'', ''--version'', ''1.0'', ''--iteration'', ''1'']] \<and>
   fst (Build
      (failing (SysWriteFile ''/tmp/hammer-foo042/a.tar'') (ExtError ''disk full'') example_env)
      foo_sources (out_dir [])) = Some (ExtError ''no source'')"
proof -
  let ?E = "failing (SysWriteFile ''/tmp/hammer-foo042/a.tar'') (ExtError ''disk full'') example_env"
  let ?bd = "''/tmp/hammer-foo042''"
  let ?a = "\<lparr>ResName = ''a.tar'', ResSource = ''aaa''\<rparr>"
  let ?b = "\<lparr>ResName = ''b.tar'', ResSource = []\<rparr>"
  let ?c = "\<lparr>ResName = ''c.tar'', ResSource = ''ccc''\<rparr>"
  let ?w1 = "\<lparr>dirs = [''out'' \<mapsto> [], ?bd \<mapsto> []], events = []\<rparr>"
  let ?wd = "\<lparr>dirs = [''out'' \<mapsto> [], ?bd \<mapsto> []], events = [EvDownload ?a]\<rparr>"
  have A: "fst (Build ?E q (out_dir [])) = None \<and>
      (\<exists>rest. events (snd (snd (Build ?E q (out_dir [])))) =
         [EvDownload ?a, EvDownload ?c, EvBuildSources ?bd] @ rest)"
    if q: "q = foo_pair" for q
  proof -
    let ?q = "q\<lparr>BuildRoot := ?bd\<rparr>"
    let ?w2 = "snd (download_resources ?E ?q ?bd [?c] ?wd)"
    let ?w3 = "snd (BuildSources ?E (Scripts q) ?bd ?w2)"
    let ?p4 = "?q\<lparr>ScriptRoot := ''/tmp/hammer-scripts-foo042''\<rparr>"
    let ?w4 = "snd (snd (Package ?E ?q ?w3))"
    let ?w5 = "snd (Cleanup ?E ?p4 ?w4)"
    have 1: "ioutil_ReadDir ?E (OutputRoot q) (out_dir []) = Inr []"
      by (simp add: q model_defs example_defs)
    have 2: "\<not> conflict ?E (nameGlob q) []" by simp
    have 3: "ioutil_TempDir ?E (''hammer-'' @ Name q) (out_dir []) = ((?bd, None), ?w1)"
      by (simp add: q model_defs example_defs)
    have 4: "Resources q = [] @ ?a # [?c]" by (simp add: q example_defs)
    have 5: "download_resources ?E ?q ?bd [] ?w1 = (None, ?w1)" by simp
    have 6: "Download ?E ?a ?q ?w1 = ((''aaa'', None), ?wd)"
      by (simp add: q model_defs example_defs)
    have 7: "ioutil_WriteFile ?E ?bd (ResName ?a) ''aaa'' 511 ?wd =
        (Some (ExtError ''disk full''), ?wd)"
      by (simp add: model_defs example_defs)
    have 8: "\<forall>r \<in> set [?c]. snd (download ?E r ?q) = None"
      by (simp add: example_defs)
    have 9: "download_resources ?E ?q ?bd [?c] ?wd = (None, ?w2)"
      by (simp add: q model_defs example_defs)
    have 10: "BuildSources ?E (Scripts q) ?bd ?w2 = ((''done'', None), ?w3)"
      by (simp add: q model_defs example_defs)
    have 11: "Package ?E ?q ?w3 = ((''created package'', None), ?p4, ?w4)"
      by (simp add: q model_defs example_defs)
    have 12: "Cleanup ?E ?p4 ?w4 = (None, ?w5)"
      by (simp add: q model_defs example_defs)
    from Build_ignores_write_error [OF 1 2 3 4 5 6 7] 8 obtain w2 rest where
      a: "download_resources ?E ?q ?bd [?c] ?wd = (None, w2)" and
      ev: "events (snd (snd (Build ?E q (out_dir [])))) =
        events (out_dir []) @ map EvDownload (Resources q) @ EvBuildSources ?bd # rest" and
      ok: "\<forall>out w3 out2 p4 w4 w5.
        BuildSources ?E (Scripts q) ?bd w2 = ((out, None), w3) \<longrightarrow>
        Package ?E ?q w3 = ((out2, None), p4, w4) \<longrightarrow>
        Cleanup ?E p4 w4 = (None, w5) \<longrightarrow>
        fst (Build ?E q (out_dir [])) = None"
      by blast
    from a 9 have w2: "w2 = ?w2" by simp
    from ok 10 11 12 have "fst (Build ?E q (out_dir [])) = None"
      unfolding w2 by blast
    moreover from ev have "events (snd (snd (Build ?E q (out_dir [])))) =
        [EvDownload ?a, EvDownload ?c, EvBuildSources ?bd] @ rest"
      by (simp add: q example_defs)
    ultimately show ?thesis by blast
  qed
  have B: "fst (Build ?E q (out_dir [])) = Some (ExtError ''no source'')"
    if q: "q = foo_sources" for q
  proof -
    let ?q = "q\<lparr>BuildRoot := ?bd\<rparr>"
    have 1: "ioutil_ReadDir ?E (OutputRoot q) (out_dir []) = Inr []"
      by (simp add: q model_defs example_defs)
    have 2: "\<not> conflict ?E (nameGlob q) []" by simp
    have 3: "ioutil_TempDir ?E (''hammer-'' @ Name q) (out_dir []) = ((?bd, None), ?w1)"
      by (simp add: q model_defs example_defs)
    have 4: "Resources q = [] @ ?a # [?b, ?c]" by (simp add: q example_defs)
    have 5: "download_resources ?E ?q ?bd [] ?w1 = (None, ?w1)" by simp
    have 6: "Download ?E ?a ?q ?w1 = ((''aaa'', None), ?wd)"
      by (simp add: q model_defs example_defs)
    have 7: "ioutil_WriteFile ?E ?bd (ResName ?a) ''aaa'' 511 ?wd =
        (Some (ExtError ''disk full''), ?wd)"
      by (simp add: model_defs example_defs)
    have 8: "(0::nat) < length [?b, ?c]" by simp
    have 9: "\<forall>j<(0::nat). snd (download ?E ([?b, ?c] ! j) ?q) = None" by simp
    have 10: "snd (download ?E ([?b, ?c] ! 0) ?q) = Some (ExtError ''no source'')"
      by (simp add: example_defs)
    from Build_ignores_write_error [OF 1 2 3 4 5 6 7] 8 9 10 show ?thesis by blast
  qed
  from A [OF refl] B [OF refl] show ?thesis
    by (simp add: model_defs example_defs)
qed

subsection \<open>C10: directories do not count in the conflict check\<close>




end
